theory Spec2Isabelle
  imports Main "HOL-Library.Char_ord" "HOL-Library.List_Lexorder"
begin

section \<open>The TensorFlow graph importer of ngraph (tf\_importer/importer.py)\<close>

text \<open>
  The development embeds the class \<open>TFImporter\<close>. Python exceptions are values of the
  type \<open>error\<close>; a function that can raise returns \<open>error + 'a\<close> with \<open>Inl\<close> for the
  exception. The methods that mutate the importer take the importer and return the new one.
\<close>

subsection \<open>Python values and exceptions\<close>

datatype error =
    KeyError
  | ValueError
  | AssertionError
  | IndexError
  | AttributeError
  | BridgeError string

text \<open>
  An ngraph Op, as far as the importer looks at it: the attribute \<open>name\<close>, which
  \<open>post_process_op\<close> rewrites, and the rest of the object, which the importer never reads.
\<close>

datatype ng_op = Op (op_name: string) (op_rest: nat)

text \<open>
  What an entry of \<open>name_op_map\<close>, an element of \<open>input_ops\<close> or a result of the bridge can
  be: \<open>None\<close>, one Op, or a Python tuple.
\<close>

datatype pyval = PyNone | PyOp ng_op | PyTuple "pyval list"

text \<open>A node of the GraphDef: the three fields the importer reads.\<close>

record tf_node =
  node_name :: string
  node_op :: string
  node_input :: "string list"

subsection \<open>Python builtins used by the importer\<close>

text \<open>\<open>s.split(sep)\<close> for a one-character separator: always at least one part.\<close>

fun split_str :: "char \<Rightarrow> string \<Rightarrow> string list" where
  "split_str sep [] = [[]]"
| "split_str sep (c # cs) =
     (if c = sep then [] # split_str sep cs
      else (case split_str sep cs of
              [] \<Rightarrow> [[c]]
            | w # ws \<Rightarrow> (c # w) # ws))"

text \<open>
  A Python 3 \<open>str\<close> is a sequence of code points; a \<open>char\<close> here is a code point below
  256. The tables below are the interpreter's, restricted to that range.

  The characters that \<open>str.strip()\<close> removes (those for which \<open>str.isspace()\<close> holds):
  tab to carriage return, the four separators U+001C to U+001F, the space, U+0085 and
  U+00A0.
\<close>

definition is_space :: "char \<Rightarrow> bool" where
  "is_space c = (c \<in> set [CHR 0x09, CHR 0x0A, CHR 0x0B, CHR 0x0C, CHR 0x0D,
                           CHR 0x1C, CHR 0x1D, CHR 0x1E, CHR 0x1F,
                           CHR '' '', CHR 0x85, CHR 0xA0])"

text \<open>\<open>s.strip()\<close>: whitespace removed at both ends.\<close>

definition strip :: "string \<Rightarrow> string" where
  "strip s = rev (dropWhile is_space (rev (dropWhile is_space s)))"

text \<open>
  The whitespace that \<open>int()\<close> skips around a number: as above without the four
  separators U+001C to U+001F, which \<open>int()\<close> rejects.
\<close>

definition is_int_space :: "char \<Rightarrow> bool" where
  "is_int_space c = (c \<in> set [CHR 0x09, CHR 0x0A, CHR 0x0B, CHR 0x0C, CHR 0x0D,
                               CHR '' '', CHR 0x85, CHR 0xA0])"

text \<open>The decimal digits: below 256 there are no others than these ten.\<close>

definition is_digit :: "char \<Rightarrow> bool" where
  "is_digit c = (c \<in> set ''0123456789'')"

definition digit_value :: "char \<Rightarrow> nat" where
  "digit_value c = of_char c - 48"

text \<open>
  The digits of a literal: at least one digit, and single underscores allowed between
  two digits (not in front, not at the end, not two in a row).
\<close>

fun digit_groups :: "string \<Rightarrow> bool" where
  "digit_groups [] = False"
| "digit_groups [c] = is_digit c"
| "digit_groups (c # d # r) =
     (is_digit c \<and> (if d = CHR ''_'' then digit_groups r else digit_groups (d # r)))"

text \<open>The number that the digits denote; the underscores do not count.\<close>

definition decimal :: "string \<Rightarrow> nat" where
  "decimal ds =
     foldl (\<lambda>acc c. 10 * acc + digit_value c) 0 (filter (\<lambda>c. c \<noteq> CHR ''_'') ds)"

text \<open>
  The sign and the digits of the text given to \<open>int()\<close>, after the surrounding whitespace
  is dropped. No whitespace may follow the sign.
\<close>

definition sign_and_digits :: "string \<Rightarrow> bool \<times> string" where
  "sign_and_digits s =
     (case rev (dropWhile is_int_space (rev (dropWhile is_int_space s))) of
        [] \<Rightarrow> (False, [])
      | c # r \<Rightarrow> if c = CHR ''-'' then (True, r)
                 else if c = CHR ''+'' then (False, r)
                 else (False, c # r))"

text \<open>
  The texts that \<open>int()\<close> accepts in base ten: optional whitespace, an optional sign,
  digits grouped by single underscores, optional whitespace.
\<close>

definition is_integer_literal :: "string \<Rightarrow> bool" where
  "is_integer_literal s = digit_groups (snd (sign_and_digits s))"

definition int_value :: "string \<Rightarrow> int" where
  "int_value s =
     (if fst (sign_and_digits s) then - int (decimal (snd (sign_and_digits s)))
      else int (decimal (snd (sign_and_digits s))))"

text \<open>\<open>int(s)\<close> for a string: raises ValueError on a text that is no integer literal.\<close>

definition py_int :: "string \<Rightarrow> error + int" where
  "py_int s = (if is_integer_literal s then Inr (int_value s) else Inl ValueError)"

text \<open>
  \<open>t[idx]\<close> on a tuple: a negative index counts from the end, an index out of range
  raises IndexError.
\<close>

definition tuple_getitem :: "pyval list \<Rightarrow> int \<Rightarrow> error + pyval" where
  "tuple_getitem t idx =
     (if 0 \<le> idx \<and> idx < int (length t) then Inr (t ! nat idx)
      else if idx < 0 \<and> - int (length t) \<le> idx then Inr (t ! nat (int (length t) + idx))
      else Inl IndexError)"

text \<open>\<open>d[key]\<close> on a dict: raises KeyError when the key is absent.\<close>

definition dict_getitem :: "(string \<rightharpoonup> pyval) \<Rightarrow> string \<Rightarrow> error + pyval" where
  "dict_getitem d key = (case d key of None \<Rightarrow> Inl KeyError | Some v \<Rightarrow> Inr v)"

text \<open>
  A list comprehension \<open>[f(x) for x in xs]\<close> whose body can raise: the first exception
  ends the comprehension.
\<close>

fun comprehension :: "('a \<Rightarrow> error + 'b) \<Rightarrow> 'a list \<Rightarrow> error + 'b list" where
  "comprehension f [] = Inr []"
| "comprehension f (x # xs) =
     (case f x of
        Inl e \<Rightarrow> Inl e
      | Inr y \<Rightarrow> (case comprehension f xs of Inl e \<Rightarrow> Inl e | Inr ys \<Rightarrow> Inr (y # ys)))"

subsection \<open>utils.remove\_tf\_name\_prefix\<close>

text \<open>
  Modelled from the spec: \<open>remove_tf_name_prefix\<close> lives in tf\_importer/utils.py, which is
  not among the sources. The spec's Name Resolver says that a leading control-dependency
  marker (the caret of the interchange format) is stripped.
\<close>

definition remove_tf_name_prefix :: "string \<Rightarrow> string" where
  "remove_tf_name_prefix name =
     (case name of [] \<Rightarrow> [] | c # r \<Rightarrow> if c = CHR ''^'' then r else c # r)"

subsection \<open>The importer's state\<close>

text \<open>
  The bridge object. Its code (ops\_bridge.py) is not among the sources; the importer
  reads and writes one attribute of it, \<open>init_assign_op_names\<close>, and calls it.
\<close>

record ops_bridge_state =
  init_assign_op_names :: "string set"

text \<open>
  Modelled from the spec: the constructor \<open>OpsBridge()\<close> is not among the sources. The
  spec says that a reset clears the Assignment-Dependency Set, which lives in the bridge,
  so a fresh bridge has the empty set.
\<close>

definition OpsBridge :: ops_bridge_state where
  "OpsBridge = \<lparr>init_assign_op_names = {}\<rparr>"

text \<open>
  The call \<open>self.ops_bridge(tf_node, input_ops)\<close>: a parameter of the model. It sees the
  bridge's state, the node and the resolved inputs, and returns \<open>None\<close>, an Op or a tuple,
  or raises.
\<close>

type_synonym bridge_call = "ops_bridge_state \<Rightarrow> tf_node \<Rightarrow> pyval list \<Rightarrow> error + pyval"

record importer =
  name_op_map :: "string \<rightharpoonup> pyval"
  ops_bridge :: ops_bridge_state
  init_ops :: "pyval list"
  graph_def :: "tf_node list option"

definition reset :: "importer \<Rightarrow> importer" where
  "reset self =
     \<lparr>name_op_map = Map.empty, ops_bridge = OpsBridge, init_ops = [], graph_def = None\<rparr>"

text \<open>\<open>TFImporter()\<close>: the constructor only calls \<open>reset\<close>.\<close>

definition TFImporter :: importer where
  "TFImporter =
     reset \<lparr>name_op_map = Map.empty, ops_bridge = OpsBridge, init_ops = [], graph_def = None\<rparr>"

subsection \<open>post\_process\_op\<close>

text \<open>\<open>s.replace("/", "_")\<close>.\<close>

definition replace_slash :: "string \<Rightarrow> string" where
  "replace_slash s = map (\<lambda>c. if c = CHR ''/'' then CHR ''_'' else c) s"

text \<open>
  \<open>op.name = op.name.replace("/", "_")\<close> mutates the Op in place. The model returns the
  renamed Op: the replacement is idempotent, so an Op that an earlier table entry already
  holds keeps the name it has there. A tuple has no attribute \<open>name\<close>.
\<close>

definition set_safe_name :: "ng_op \<Rightarrow> ng_op" where
  "set_safe_name op = Op (replace_slash (op_name op)) (op_rest op)"

fun post_process_op :: "pyval \<Rightarrow> error + pyval" where
  "post_process_op PyNone = Inr PyNone"
| "post_process_op (PyOp op) = Inr (PyOp (set_safe_name op))"
| "post_process_op (PyTuple t) = Inl AttributeError"

subsection \<open>get\_op\_handle\_by\_name\<close>

definition get_op_handle_by_name :: "(string \<rightharpoonup> pyval) \<Rightarrow> string \<Rightarrow> error + pyval" where
  "get_op_handle_by_name tbl name0 =
     (let name = remove_tf_name_prefix name0;
          name_splits = split_str CHR '':'' name
      in if length name_splits > 1 then
           if length name_splits \<noteq> 2 then Inl AssertionError
           else (case py_int (name_splits ! 1) of
                   Inl e \<Rightarrow> Inl e
                 | Inr idx \<Rightarrow>
                     (let name_truncated = name_splits ! 0 in
                      case dict_getitem tbl name_truncated of
                        Inl e \<Rightarrow> Inl e
                      | Inr outputs \<Rightarrow>
                          (case outputs of
                             PyTuple t \<Rightarrow> tuple_getitem t idx
                           | _ \<Rightarrow> if idx = 0 then dict_getitem tbl name_truncated
                                  else Inl AssertionError)))
         else dict_getitem tbl name)"

subsection \<open>parse\_graph\_def\<close>

definition is_init_node :: "tf_node \<Rightarrow> bool" where
  "is_init_node tf_node = (node_op tf_node = ''NoOp'' \<and> node_name tf_node = ''init'')"

text \<open>Pass 1: the assigns connected to the NoOp named init.\<close>

fun pass1 :: "importer \<Rightarrow> tf_node list \<Rightarrow> importer" where
  "pass1 self [] = self"
| "pass1 self (tf_node # rest) =
     pass1 (if is_init_node tf_node
            then self\<lparr>ops_bridge := (ops_bridge self)\<lparr>init_assign_op_names :=
                   init_assign_op_names (ops_bridge self)
                     \<union> set (map remove_tf_name_prefix (node_input tf_node))\<rparr>\<rparr>
            else self) rest"

text \<open>The last two statements of the loop body of pass 2.\<close>

definition save_output :: "importer \<Rightarrow> tf_node \<Rightarrow> pyval \<Rightarrow> importer" where
  "save_output self tf_node output_op =
     self\<lparr>init_ops := (if is_init_node tf_node then init_ops self @ [output_op]
                        else init_ops self),
          name_op_map := (name_op_map self)(node_name tf_node \<mapsto> output_op)\<rparr>"

text \<open>
  The body of the loop of pass 2, for one node. (The flag \<open>verbose\<close> only prints.) Every
  statement that can raise comes before the two that change the importer.
\<close>

definition process_node :: "bridge_call \<Rightarrow> importer \<Rightarrow> tf_node \<Rightarrow> error + importer" where
  "process_node bridge self tf_node =
     (case comprehension (get_op_handle_by_name (name_op_map self)) (node_input tf_node) of
        Inl e \<Rightarrow> Inl e
      | Inr input_ops \<Rightarrow>
          (case (if PyNone \<in> set input_ops then Inr PyNone
                 else bridge (ops_bridge self) tf_node input_ops) of
             Inl e \<Rightarrow> Inl e
           | Inr output_op \<Rightarrow>
               (case comprehension post_process_op
                       (case output_op of PyTuple t \<Rightarrow> t | _ \<Rightarrow> [output_op]) of
                  Inl e \<Rightarrow> Inl e
                | Inr output_list \<Rightarrow>
                    if length output_list > 1
                    then Inr (save_output self tf_node (PyTuple output_list))
                    else (case output_list of
                            [] \<Rightarrow> Inl IndexError
                          | v # _ \<Rightarrow> Inr (save_output self tf_node v)))))"

text \<open>
  Pass 2. An exception leaves the loop; the result then carries the importer as the
  nodes before the failing one left it.
\<close>

fun pass2 :: "bridge_call \<Rightarrow> importer \<Rightarrow> tf_node list \<Rightarrow> (error \<times> importer) + importer" where
  "pass2 bridge self [] = Inr self"
| "pass2 bridge self (tf_node # rest) =
     (case process_node bridge self tf_node of
        Inl e \<Rightarrow> Inl (e, self)
      | Inr self' \<Rightarrow> pass2 bridge self' rest)"

definition parse_graph_def ::
    "bridge_call \<Rightarrow> importer \<Rightarrow> tf_node list \<Rightarrow> (error \<times> importer) + importer" where
  "parse_graph_def bridge self graph =
     pass2 bridge (pass1 (self\<lparr>graph_def := Some graph\<rparr>) graph) graph"

text \<open>The importer after a call of \<open>parse_graph_def\<close>, whether it returned or raised.\<close>

definition importer_after :: "(error \<times> importer) + importer \<Rightarrow> importer" where
  "importer_after r = (case r of Inl (e, self) \<Rightarrow> self | Inr self \<Rightarrow> self)"

subsection \<open>\_get\_unimplemented\_ops\<close>

text \<open>The loop over the stripped lines of the file, collecting the set \<open>required_ops\<close>.\<close>

fun required_ops_loop :: "string set \<Rightarrow> string list \<Rightarrow> error + string set" where
  "required_ops_loop required_ops [] = Inr required_ops"
| "required_ops_loop required_ops (line # rest) =
     (if take 3 line = ''op:'' then
        (case split_str CHR '' '' line of
           _ # w # _ \<Rightarrow> required_ops_loop (insert (butlast (tl w)) required_ops) rest
         | _ \<Rightarrow> Inl IndexError)
      else required_ops_loop required_ops rest)"

text \<open>
  \<open>_get_unimplemented_ops\<close>, from the lines that \<open>readlines()\<close> returns. The set
  \<open>supported_ops\<close> is what the reflection over a fresh bridge yields, a parameter here.
\<close>

definition get_unimplemented_ops :: "string set \<Rightarrow> string list \<Rightarrow> error + string list" where
  "get_unimplemented_ops supported_ops lines =
     (case required_ops_loop {} (map strip lines) of
        Inl e \<Rightarrow> Inl e
      | Inr required_ops \<Rightarrow> Inr (sorted_list_of_set (required_ops - supported_ops)))"

subsection \<open>Vocabulary of the specification\<close>

text \<open>
  The Name Resolver of the specification speaks of the base-name of a reference and of
  its suffix. Both are read off the reference once the control marker is removed: the
  base-name is the text before the first colon, the suffix the text after it.
\<close>

definition base_name :: "string \<Rightarrow> string" where
  "base_name r = takeWhile (\<lambda>c. c \<noteq> CHR '':'') (remove_tf_name_prefix r)"

definition suffix_part :: "string \<Rightarrow> string" where
  "suffix_part r = tl (dropWhile (\<lambda>c. c \<noteq> CHR '':'') (remove_tf_name_prefix r))"

text \<open>
  A malformed reference, in the specification's words: more than one colon, or one colon
  followed by a text that is not an integer.
\<close>

definition malformed_reference :: "string \<Rightarrow> bool" where
  "malformed_reference r =
     (count_list (remove_tf_name_prefix r) CHR '':'' > 1
      \<or> (count_list (remove_tf_name_prefix r) CHR '':'' = 1
          \<and> \<not> is_integer_literal (suffix_part r)))"


text \<open>The arity of a table entry: a tuple or not.\<close>

fun is_tuple :: "pyval \<Rightarrow> bool" where
  "is_tuple (PyTuple t) = True"
| "is_tuple v = False"

text \<open>
  The line that the text format of the interchange file has for the field \<open>op\<close> of a
  node of type \<open>t\<close>.
\<close>

definition op_line :: "string \<Rightarrow> string" where
  "op_line t = ''op: '' @ [CHR 0x22] @ t @ [CHR 0x22]"

subsection \<open>Bridges for the examples\<close>

text \<open>
  Bridges to run the importer on: one that handles no node type and returns \<open>None\<close>,
  one that raises whenever it is called, one that returns one Op named after the node,
  one that does so for every node type but \<open>FancyNewOp\<close>, for which it returns
  \<open>None\<close>, and two that return a tuple of one and of two Ops.
\<close>

definition ignoring_bridge :: bridge_call where
  "ignoring_bridge b tf_node input_ops = Inr PyNone"

definition raising_bridge :: bridge_call where
  "raising_bridge b tf_node input_ops = Inl (BridgeError ''called'')"

definition naming_bridge :: bridge_call where
  "naming_bridge b tf_node input_ops = Inr (PyOp (Op (node_name tf_node) 0))"

definition one_tuple_bridge :: bridge_call where
  "one_tuple_bridge b tf_node input_ops = Inr (PyTuple [PyOp (Op (node_name tf_node) 0)])"

definition partial_bridge :: bridge_call where
  "partial_bridge b tf_node input_ops =
     (if node_op tf_node = ''FancyNewOp'' then Inr PyNone
      else Inr (PyOp (Op (node_name tf_node) 0)))"

definition pair_bridge :: bridge_call where
  "pair_bridge b tf_node input_ops =
     Inr (PyTuple [PyOp (Op (node_name tf_node) 0), PyOp (Op (node_name tf_node) 1)])"

section \<open>Properties\<close>

subsection \<open>Splitting and stripping\<close>

lemma split_str_not_Nil: "split_str sep s \<noteq> []"
  by (induction s) (auto split: list.splits)

lemma split_str_no_sep: "sep \<notin> set a \<Longrightarrow> split_str sep a = [a]"
  by (induction a) auto

lemma split_str_append: "sep \<notin> set a \<Longrightarrow> split_str sep (a @ sep # b) = a # split_str sep b"
  by (induction a) auto

lemma length_split_str: "length (split_str sep s) = Suc (count_list s sep)"
  by (induction s) (auto split: list.splits simp: split_str_not_Nil)

lemma split_str_first:
  "split_str sep s = takeWhile (\<lambda>c. c \<noteq> sep) s #
     (if sep \<in> set s then split_str sep (tl (dropWhile (\<lambda>c. c \<noteq> sep) s)) else [])"
  by (induction s) (auto split: list.splits simp: split_str_not_Nil)

lemma count_list_0_iff: "count_list s c = 0 \<longleftrightarrow> c \<notin> set s"
  by (induction s) auto

lemma count_list_tl_dropWhile:
  "c \<in> set s \<Longrightarrow> count_list (tl (dropWhile (\<lambda>x. x \<noteq> c) s)) c = count_list s c - 1"
  by (induction s) auto

lemma split_str_one_sep:
  assumes "count_list s sep = 1"
  shows "split_str sep s = [takeWhile (\<lambda>c. c \<noteq> sep) s, tl (dropWhile (\<lambda>c. c \<noteq> sep) s)]"
proof -
  from assms have mem: "sep \<in> set s"
    using count_list_0_iff [of s sep] by auto
  then have "count_list (tl (dropWhile (\<lambda>x. x \<noteq> sep) s)) sep = 0"
    using assms by (simp add: count_list_tl_dropWhile)
  then have "sep \<notin> set (tl (dropWhile (\<lambda>x. x \<noteq> sep) s))"
    by (simp add: count_list_0_iff)
  then have "split_str sep (tl (dropWhile (\<lambda>x. x \<noteq> sep) s)) = [tl (dropWhile (\<lambda>x. x \<noteq> sep) s)]"
    by (rule split_str_no_sep)
  with mem show ?thesis
    using split_str_first [of sep s] by simp
qed

lemma in_set_dropWhile: "c \<in> set s \<Longrightarrow> \<not> P c \<Longrightarrow> c \<in> set (dropWhile P s)"
  by (induction s) auto

lemma colon_not_int_space: "\<not> is_int_space CHR '':''"
  by (simp add: is_int_space_def)

lemma colon_not_digit: "\<not> is_digit CHR '':''"
  by (simp add: is_digit_def)

lemma digit_groups_chars: "digit_groups ds \<Longrightarrow> c \<in> set ds \<Longrightarrow> is_digit c \<or> c = CHR ''_''"
  by (induction ds rule: digit_groups.induct) (auto split: if_splits)

text \<open>A text that \<open>int()\<close> accepts has no colon in it.\<close>

lemma integer_literal_no_colon: "is_integer_literal s \<Longrightarrow> CHR '':'' \<notin> set s"
proof
  let ?t = "rev (dropWhile is_int_space (rev (dropWhile is_int_space s)))"
  assume lit: "is_integer_literal s" and "CHR '':'' \<in> set s"
  then have mem: "CHR '':'' \<in> set ?t"
    by (simp add: in_set_dropWhile colon_not_int_space)
  from lit have all: "digit_groups (snd (sign_and_digits s))"
    by (simp add: is_integer_literal_def)
  show False
  proof (cases ?t)
    case Nil
    with mem show False by simp
  next
    case (Cons c r)
    have "CHR '':'' \<in> set (snd (sign_and_digits s))"
      using mem Cons by (auto simp: sign_and_digits_def)
    with all have "is_digit CHR '':'' \<or> CHR '':'' = CHR ''_''"
      by (rule digit_groups_chars)
    then show False
      using colon_not_digit by simp
  qed
qed

subsection \<open>What get\_op\_handle\_by\_name does on each form of reference\<close>

lemma get_op_handle_unsuffixed:
  assumes "CHR '':'' \<notin> set base" and "remove_tf_name_prefix r = base"
  shows "get_op_handle_by_name tbl r = dict_getitem tbl base"
  using assms by (simp add: get_op_handle_by_name_def split_str_no_sep)

lemma get_op_handle_suffixed:
  assumes "CHR '':'' \<notin> set base" and "CHR '':'' \<notin> set suf"
    and "remove_tf_name_prefix r = base @ '':'' @ suf"
  shows "get_op_handle_by_name tbl r =
     (case py_int suf of
        Inl e \<Rightarrow> Inl e
      | Inr idx \<Rightarrow>
          (case tbl base of
             None \<Rightarrow> Inl KeyError
           | Some (PyTuple t) \<Rightarrow> tuple_getitem t idx
           | Some v \<Rightarrow> if idx = 0 then Inr v else Inl AssertionError))"
  using assms
  by (simp add: get_op_handle_by_name_def split_str_append split_str_no_sep dict_getitem_def
      split: sum.splits option.splits pyval.splits)

lemma get_op_handle_many_colons:
  assumes "count_list (remove_tf_name_prefix r) CHR '':'' > 1"
  shows "get_op_handle_by_name tbl r = Inl AssertionError"
  using assms by (simp add: get_op_handle_by_name_def length_split_str)

lemma get_op_handle_bad_suffix:
  assumes "count_list (remove_tf_name_prefix r) CHR '':'' = 1"
    and "\<not> is_integer_literal (suffix_part r)"
  shows "get_op_handle_by_name tbl r = Inl ValueError"
  using assms
  by (simp add: get_op_handle_by_name_def split_str_one_sep suffix_part_def py_int_def)

subsection \<open>Evaluated facts used by the examples\<close>

lemma py_int_examples:
  "py_int ''0_0'' = Inr 0"
  "py_int ''1_0'' = Inr 10"
  "py_int ''-1_0'' = Inr (- 10)"
  "py_int ''1__0'' = Inl ValueError"
  "py_int ''_1'' = Inl ValueError"
  "py_int ''1_'' = Inl ValueError"
  "py_int ''+ 1'' = Inl ValueError"
  "py_int '' 12 '' = Inr 12"
  "py_int (CHR 0x85 # ''1'' @ [CHR 0xA0]) = Inr 1"
  "py_int (CHR 0x1C # ''1'') = Inl ValueError"
  "py_int '''' = Inl ValueError"
  "py_int ''b'' = Inl ValueError"
  by code_simp+

lemma strip_examples:
  "strip (CHR 0x1C # CHR 0x85 # ''op:'' @ [CHR 0xA0, CHR 0x1F]) = ''op:''"
  "strip '' a b '' = ''a b''"
  by code_simp+

lemma literal_0: "is_integer_literal ''0''"
  by code_simp

lemma literal_1: "is_integer_literal ''1''"
  by code_simp

lemma value_0: "int_value ''0'' = 0"
  by code_simp

lemma value_1: "int_value ''1'' = 1"
  by code_simp

subsection \<open>References to an entry that is a single Op\<close>

text \<open>
  C10. Let the table map \<open>base\<close> to a single Op (not a tuple). A reference \<open>base:k\<close>, with
  \<open>k\<close> any text that \<open>int()\<close> accepts, returns that Op when \<open>k\<close> is 0 and fails (the
  assertion \<open>idx == 0\<close>) for every other \<open>k\<close>; the unsuffixed reference \<open>base\<close> returns the
  same Op, so \<open>base:0\<close> and \<open>base\<close> are interchangeable.
\<close>

theorem single_entry_index:
  assumes "CHR '':'' \<notin> set base"
    and "tbl base = Some (PyOp op)"
    and "remove_tf_name_prefix r = base @ '':'' @ suf"
    and "is_integer_literal suf"
    and "remove_tf_name_prefix r0 = base"
  shows "get_op_handle_by_name tbl r =
           (if int_value suf = 0 then Inr (PyOp op) else Inl AssertionError)
         \<and> get_op_handle_by_name tbl r0 = Inr (PyOp op)"
proof -
  have "CHR '':'' \<notin> set suf"
    using assms(4) by (rule integer_literal_no_colon)
  then have "get_op_handle_by_name tbl r =
      (if int_value suf = 0 then Inr (PyOp op) else Inl AssertionError)"
    using assms by (simp add: get_op_handle_suffixed py_int_def)
  moreover have "get_op_handle_by_name tbl r0 = Inr (PyOp op)"
    using assms by (simp add: get_op_handle_unsuffixed dict_getitem_def)
  ultimately show ?thesis by simp
qed

theorem single_entry_index_witness:
  "get_op_handle_by_name [''a'' \<mapsto> PyOp (Op ''a'' 0)] ''a:0'' = Inr (PyOp (Op ''a'' 0))
   \<and> get_op_handle_by_name [''a'' \<mapsto> PyOp (Op ''a'' 0)] ''^a:1'' = Inl AssertionError
   \<and> get_op_handle_by_name [''a'' \<mapsto> PyOp (Op ''a'' 0)] ''a'' = Inr (PyOp (Op ''a'' 0))"
  using single_entry_index [of "''a''" "[''a'' \<mapsto> PyOp (Op ''a'' 0)]" "Op ''a'' 0"
      "''a:0''" "''0''" "''a''"]
    single_entry_index [of "''a''" "[''a'' \<mapsto> PyOp (Op ''a'' 0)]" "Op ''a'' 0"
      "''^a:1''" "''1''" "''a''"]
  by (simp add: remove_tf_name_prefix_def literal_0 literal_1 value_0 value_1)

subsection \<open>An exception in a comprehension or in a node ends the pass\<close>

lemma comprehension_fails:
  assumes "x \<in> set xs" and "f x = Inl e"
  shows "\<exists>e'. comprehension f xs = Inl e'"
  using assms(1)
proof (induction xs)
  case Nil
  then show ?case by simp
next
  case (Cons y ys)
  show ?case
  proof (cases "f y")
    case (Inl e1)
    then show ?thesis by simp
  next
    case (Inr v)
    with Cons.prems assms(2) have "x \<in> set ys" by auto
    then obtain e' where "comprehension f ys = Inl e'"
      using Cons.IH by blast
    with Inr show ?thesis by simp
  qed
qed

lemma process_node_fails:
  assumes "r \<in> set (node_input tf_node)"
    and "get_op_handle_by_name (name_op_map self) r = Inl e"
  shows "\<exists>e'. process_node bridge self tf_node = Inl e'"
proof -
  have "\<exists>e'. comprehension (get_op_handle_by_name (name_op_map self)) (node_input tf_node)
      = Inl e'"
    using assms by (rule comprehension_fails)
  then obtain e' where
    "comprehension (get_op_handle_by_name (name_op_map self)) (node_input tf_node) = Inl e'" ..
  then show ?thesis by (simp add: process_node_def)
qed

lemma pass2_fails:
  assumes "tf_node \<in> set graph" and "r \<in> set (node_input tf_node)"
    and "\<And>tbl. \<exists>e. get_op_handle_by_name tbl r = Inl e"
  shows "\<exists>e self'. pass2 bridge self graph = Inl (e, self')"
  using assms(1)
proof (induction graph arbitrary: self)
  case Nil
  then show ?case by simp
next
  case (Cons n rest)
  show ?case
  proof (cases "process_node bridge self n")
    case (Inl e)
    then show ?thesis by simp
  next
    case (Inr self')
    have "n \<noteq> tf_node"
    proof
      assume eq: "n = tf_node"
      obtain e where "get_op_handle_by_name (name_op_map self) r = Inl e"
        using assms(3) [of "name_op_map self"] ..
      with assms(2) have "\<exists>e'. process_node bridge self tf_node = Inl e'"
        by (rule process_node_fails)
      with Inr eq show False by simp
    qed
    with Cons.prems have "tf_node \<in> set rest" by simp
    then have "\<exists>e s. pass2 bridge self' rest = Inl (e, s)" by (rule Cons.IH)
    with Inr show ?thesis by simp
  qed
qed


subsection \<open>Malformed references\<close>

text \<open>
  C5. A reference whose suffix is malformed (more than one colon, or one colon followed by
  a text that is not an integer) makes name resolution raise, whatever the table holds:
  the assertion on the number of parts fails (AssertionError) or \<open>int()\<close> rejects the
  suffix (ValueError). These two exceptions are what the specification calls a
  MalformedReferenceError. Nothing catches them, so \<open>parse_graph_def\<close> on a graph that has
  such a reference among the inputs of one of its nodes raises too. A text is an integer
  when \<open>int()\<close> accepts it: whitespace around it, a sign, and single underscores
  between digits are allowed, so \<open>a:0_0\<close> and \<open>a: 0\<close> are well-formed references.
\<close>

theorem malformed_reference_raises:
  assumes "malformed_reference r"
    and "tf_node \<in> set graph" and "r \<in> set (node_input tf_node)"
  shows "get_op_handle_by_name tbl r =
           Inl (if count_list (remove_tf_name_prefix r) CHR '':'' > 1
                then AssertionError else ValueError)
         \<and> (\<exists>e self'. parse_graph_def bridge self graph = Inl (e, self'))"
proof -
  have res: "get_op_handle_by_name tbl' r =
           Inl (if count_list (remove_tf_name_prefix r) CHR '':'' > 1
                then AssertionError else ValueError)" for tbl'
    using assms(1)
    by (auto simp: malformed_reference_def get_op_handle_many_colons get_op_handle_bad_suffix)
  then have "\<exists>e. get_op_handle_by_name tbl' r = Inl e" for tbl'
    by simp
  with assms(2,3) have "\<exists>e self'. parse_graph_def bridge self graph = Inl (e, self')"
    unfolding parse_graph_def_def by (rule pass2_fails)
  with res [of tbl] show ?thesis by simp
qed


lemma malformed_a_b: "malformed_reference ''a:b''"
  by code_simp

lemma malformed_a_1_2: "malformed_reference ''^a:1:2''"
  by code_simp

theorem malformed_reference_raises_witness:
  "malformed_reference ''a:b''
   \<and> get_op_handle_by_name Map.empty ''a:b'' = Inl ValueError
   \<and> isl (parse_graph_def ignoring_bridge TFImporter
        [\<lparr>node_name = ''n'', node_op = ''Relu'', node_input = [''a:b'']\<rparr>])
   \<and> malformed_reference ''^a:1:2''
   \<and> get_op_handle_by_name Map.empty ''^a:1:2'' = Inl AssertionError"
proof -
  let ?n = "\<lparr>node_name = ''n'', node_op = ''Relu'', node_input = [''a:b'']\<rparr>"
  let ?m = "\<lparr>node_name = ''n'', node_op = ''Relu'', node_input = [''^a:1:2'']\<rparr>"
  have 1: "get_op_handle_by_name Map.empty ''a:b'' =
             Inl (if count_list (remove_tf_name_prefix ''a:b'') CHR '':'' > 1
                  then AssertionError else ValueError)
           \<and> (\<exists>e self'. parse_graph_def ignoring_bridge TFImporter [?n] = Inl (e, self'))"
    by (rule malformed_reference_raises [of "''a:b''" ?n "[?n]"]) (simp_all add: malformed_a_b)
  have 2: "get_op_handle_by_name Map.empty ''^a:1:2'' =
             Inl (if count_list (remove_tf_name_prefix ''^a:1:2'') CHR '':'' > 1
                  then AssertionError else ValueError)
           \<and> (\<exists>e self'. parse_graph_def ignoring_bridge TFImporter [?m] = Inl (e, self'))"
    by (rule malformed_reference_raises [of "''^a:1:2''" ?m "[?m]"])
      (simp_all add: malformed_a_1_2)
  have c1: "count_list (remove_tf_name_prefix ''a:b'') CHR '':'' = 1"
    by (simp add: remove_tf_name_prefix_def)
  have c2: "count_list (remove_tf_name_prefix ''^a:1:2'') CHR '':'' = 2"
    by (simp add: remove_tf_name_prefix_def)
  from 1 have "isl (parse_graph_def ignoring_bridge TFImporter [?n])"
    by auto
  with 1 2 c1 c2 show ?thesis
    by (simp add: malformed_a_b malformed_a_1_2)
qed

text \<open>A suffix with an underscore between digits is an integer, and selects as one.\<close>

lemma underscore_suffix_resolves:
  "\<not> malformed_reference ''a:0_0''"
  "get_op_handle_by_name [''a'' \<mapsto> PyOp (Op ''a'' 0)] ''a:0_0'' = Inr (PyOp (Op ''a'' 0))"
  by code_simp+

subsection \<open>References to an entry that is a tuple\<close>

text \<open>
  C3, as the code has it. Let the table map \<open>base\<close> to a tuple. A reference \<open>base:k\<close> with
  \<open>0 \<le> k\<close> below the length of the tuple returns the \<open>k\<close>-th element of the tuple. An
  unsuffixed reference \<open>base\<close> returns the table entry itself, the whole tuple: the
  index does not default to 0 there.
\<close>

theorem suffixed_reference_selects_element:
  assumes "CHR '':'' \<notin> set base"
    and "tbl base = Some (PyTuple t)"
    and "remove_tf_name_prefix r = base @ '':'' @ suf"
    and "is_integer_literal suf"
    and "0 \<le> int_value suf" and "int_value suf < int (length t)"
    and "remove_tf_name_prefix r0 = base"
  shows "get_op_handle_by_name tbl r = Inr (t ! nat (int_value suf))
         \<and> get_op_handle_by_name tbl r0 = Inr (PyTuple t)"
proof -
  have "CHR '':'' \<notin> set suf"
    using assms(4) by (rule integer_literal_no_colon)
  then have "get_op_handle_by_name tbl r = Inr (t ! nat (int_value suf))"
    using assms by (simp add: get_op_handle_suffixed py_int_def tuple_getitem_def)
  moreover have "get_op_handle_by_name tbl r0 = Inr (PyTuple t)"
    using assms by (simp add: get_op_handle_unsuffixed dict_getitem_def)
  ultimately show ?thesis by simp
qed

theorem suffixed_reference_selects_element_witness:
  "get_op_handle_by_name [''a'' \<mapsto> PyTuple [PyOp (Op ''x'' 0), PyOp (Op ''y'' 1)]] ''a:1''
     = Inr (PyOp (Op ''y'' 1))
   \<and> get_op_handle_by_name [''a'' \<mapsto> PyTuple [PyOp (Op ''x'' 0), PyOp (Op ''y'' 1)]] ''^a''
     = Inr (PyTuple [PyOp (Op ''x'' 0), PyOp (Op ''y'' 1)])"
  using suffixed_reference_selects_element [of "''a''"
      "[''a'' \<mapsto> PyTuple [PyOp (Op ''x'' 0), PyOp (Op ''y'' 1)]]"
      "[PyOp (Op ''x'' 0), PyOp (Op ''y'' 1)]" "''a:1''" "''1''" "''^a''"]
  by (simp add: remove_tf_name_prefix_def literal_1 value_1)

text \<open>
  The claim as the specification states it fails on an unsuffixed reference to an entry
  with two outputs: the lookup returns the tuple, not its element 0.
\<close>

theorem unsuffixed_reference_returns_tuple:
  "get_op_handle_by_name [''a'' \<mapsto> PyTuple [PyOp (Op ''x'' 0), PyOp (Op ''y'' 1)]] ''a''
     = Inr (PyTuple [PyOp (Op ''x'' 0), PyOp (Op ''y'' 1)])
   \<and> get_op_handle_by_name [''a'' \<mapsto> PyTuple [PyOp (Op ''x'' 0), PyOp (Op ''y'' 1)]] ''a''
     \<noteq> Inr ([PyOp (Op ''x'' 0), PyOp (Op ''y'' 1)] ! 0)"
  by (simp add: get_op_handle_by_name_def remove_tf_name_prefix_def dict_getitem_def)

subsection \<open>Well-formed references\<close>

lemma get_op_handle_well_formed:
  assumes "\<not> malformed_reference r"
  shows "get_op_handle_by_name tbl r =
     (if CHR '':'' \<in> set (remove_tf_name_prefix r) then
        (case tbl (base_name r) of
           None \<Rightarrow> Inl KeyError
         | Some (PyTuple t) \<Rightarrow> tuple_getitem t (int_value (suffix_part r))
         | Some v \<Rightarrow> if int_value (suffix_part r) = 0 then Inr v else Inl AssertionError)
      else dict_getitem tbl (base_name r))"
proof (cases "CHR '':'' \<in> set (remove_tf_name_prefix r)")
  case False
  then have "base_name r = remove_tf_name_prefix r"
    by (auto simp: base_name_def)
  with False show ?thesis
    by (simp add: get_op_handle_by_name_def split_str_no_sep)
next
  case True
  then have "count_list (remove_tf_name_prefix r) CHR '':'' \<noteq> 0"
    by (simp add: count_list_0_iff)
  with assms have one: "count_list (remove_tf_name_prefix r) CHR '':'' = 1"
    and lit: "is_integer_literal (suffix_part r)"
    by (auto simp: malformed_reference_def)
  from one have "split_str CHR '':'' (remove_tf_name_prefix r) = [base_name r, suffix_part r]"
    by (simp add: split_str_one_sep base_name_def suffix_part_def)
  with True lit show ?thesis
    by (simp add: get_op_handle_by_name_def py_int_def dict_getitem_def
        split: option.splits pyval.splits)
qed


lemma not_malformed_a: "\<not> malformed_reference ''a''"
  by code_simp

subsection \<open>A reference to a name that the table does not have\<close>

text \<open>
  C1, as the code has it. \<open>name_op_map\<close> is a plain dict. When the base-name of a
  well-formed input reference is absent from it, the lookup raises KeyError, and the
  pass raises at that node: the importer stays as the earlier nodes left it and no later
  node is processed. The missing marker \<open>None\<close> is what a reference resolves to when the
  table holds \<open>None\<close> under the base-name (with no suffix, or with the suffix 0).
\<close>

theorem absent_base_name_raises:
  assumes "\<not> malformed_reference r"
    and "r \<in> set (node_input tf_node)"
    and "name_op_map self (base_name r) = None"
  shows "get_op_handle_by_name (name_op_map self) r = Inl KeyError
         \<and> (\<exists>e. pass2 bridge self (tf_node # rest) = Inl (e, self))
         \<and> get_op_handle_by_name ((name_op_map self)(base_name r \<mapsto> PyNone)) r =
             (if CHR '':'' \<in> set (remove_tf_name_prefix r) \<and> int_value (suffix_part r) \<noteq> 0
              then Inl AssertionError else Inr PyNone)"
proof -
  have key: "get_op_handle_by_name (name_op_map self) r = Inl KeyError"
    using assms(1,3) by (simp add: get_op_handle_well_formed dict_getitem_def)
  with assms(2) have "\<exists>e'. process_node bridge self tf_node = Inl e'"
    by (rule process_node_fails)
  then have stop: "\<exists>e. pass2 bridge self (tf_node # rest) = Inl (e, self)"
    by auto
  have "get_op_handle_by_name ((name_op_map self)(base_name r \<mapsto> PyNone)) r =
             (if CHR '':'' \<in> set (remove_tf_name_prefix r) \<and> int_value (suffix_part r) \<noteq> 0
              then Inl AssertionError else Inr PyNone)"
    using assms(1) by (simp add: get_op_handle_well_formed dict_getitem_def)
  with key stop show ?thesis by simp
qed

theorem absent_base_name_raises_witness:
  "get_op_handle_by_name (name_op_map TFImporter) ''a'' = Inl KeyError
   \<and> isl (pass2 ignoring_bridge TFImporter
        [\<lparr>node_name = ''b'', node_op = ''Relu'', node_input = [''a'']\<rparr>])
   \<and> get_op_handle_by_name ((name_op_map TFImporter)(''a'' \<mapsto> PyNone)) ''a'' = Inr PyNone"
proof -
  let ?n = "\<lparr>node_name = ''b'', node_op = ''Relu'', node_input = [''a'']\<rparr>"
  have base: "base_name ''a'' = ''a''"
    by (simp add: base_name_def remove_tf_name_prefix_def)
  have absent: "name_op_map TFImporter (base_name ''a'') = None"
    by (simp add: TFImporter_def reset_def)
  have "get_op_handle_by_name (name_op_map TFImporter) ''a'' = Inl KeyError
         \<and> (\<exists>e. pass2 ignoring_bridge TFImporter (?n # []) = Inl (e, TFImporter))
         \<and> get_op_handle_by_name ((name_op_map TFImporter)(base_name ''a'' \<mapsto> PyNone)) ''a'' =
             (if CHR '':'' \<in> set (remove_tf_name_prefix ''a'') \<and> int_value (suffix_part ''a'') \<noteq> 0
              then Inl AssertionError else Inr PyNone)"
    using not_malformed_a _ absent
    by (rule absent_base_name_raises [of "''a''" ?n TFImporter ignoring_bridge "[]"]) simp
  then show ?thesis
    by (auto simp: base remove_tf_name_prefix_def)
qed

text \<open>
  The claim as the specification states it fails on a graph of one node whose input
  names no earlier node: the import raises KeyError instead of completing.
\<close>

theorem absent_input_import_raises:
  "parse_graph_def ignoring_bridge TFImporter
     [\<lparr>node_name = ''b'', node_op = ''Relu'', node_input = [''a'']\<rparr>]
   = Inl (KeyError, TFImporter\<lparr>graph_def :=
       Some [\<lparr>node_name = ''b'', node_op = ''Relu'', node_input = [''a'']\<rparr>]\<rparr>)"
  by (simp add: parse_graph_def_def process_node_def get_op_handle_by_name_def
      remove_tf_name_prefix_def dict_getitem_def is_init_node_def TFImporter_def reset_def)

subsection \<open>What a saved output leaves in the table\<close>

lemma name_op_map_save_output:
  "name_op_map (save_output self tf_node v) (node_name tf_node) = Some v"
  by (simp add: save_output_def)

subsection \<open>What is stored after a bridge call\<close>

lemma post_process_ops:
  "comprehension post_process_op (map PyOp ops) = Inr (map (\<lambda>op. PyOp (set_safe_name op)) ops)"
  by (induction ops) simp_all

lemma process_node_bridge_result:
  assumes "comprehension (get_op_handle_by_name (name_op_map self)) (node_input tf_node)
             = Inr input_ops"
    and "PyNone \<notin> set input_ops"
    and "bridge (ops_bridge self) tf_node input_ops = Inr result"
  shows "process_node bridge self tf_node =
     (case comprehension post_process_op (case result of PyTuple t \<Rightarrow> t | _ \<Rightarrow> [result]) of
        Inl e \<Rightarrow> Inl e
      | Inr output_list \<Rightarrow>
          if length output_list > 1
          then Inr (save_output self tf_node (PyTuple output_list))
          else (case output_list of
                  [] \<Rightarrow> Inl IndexError
                | v # _ \<Rightarrow> Inr (save_output self tf_node v)))"
  using assms by (simp add: process_node_def)

text \<open>
  C4, as the code has it. After a bridge call that returned, the entry stored under the
  node's own name is: for a single Op, that Op post-processed; for a tuple of two or more
  Ops, the tuple of the post-processed Ops; for a tuple of one Op, the post-processed Op
  itself and not a tuple, since the code packs a tuple only when the list has more than
  one element.
\<close>

theorem stored_arity:
  assumes "comprehension (get_op_handle_by_name (name_op_map self)) (node_input tf_node)
             = Inr input_ops"
    and "PyNone \<notin> set input_ops"
    and "bridge (ops_bridge self) tf_node input_ops = Inr result"
  shows "(result = PyOp op \<longrightarrow>
            process_node bridge self tf_node
              = Inr (save_output self tf_node (PyOp (set_safe_name op))))
         \<and> (result = PyTuple (map PyOp ops) \<and> length ops > 1 \<longrightarrow>
            process_node bridge self tf_node
              = Inr (save_output self tf_node
                  (PyTuple (map (\<lambda>op. PyOp (set_safe_name op)) ops))))
         \<and> (result = PyTuple [PyOp op] \<longrightarrow>
            process_node bridge self tf_node
              = Inr (save_output self tf_node (PyOp (set_safe_name op))))"
proof -
  have step: "process_node bridge self tf_node =
     (case comprehension post_process_op (case result of PyTuple t \<Rightarrow> t | _ \<Rightarrow> [result]) of
        Inl e \<Rightarrow> Inl e
      | Inr output_list \<Rightarrow>
          if length output_list > 1
          then Inr (save_output self tf_node (PyTuple output_list))
          else (case output_list of
                  [] \<Rightarrow> Inl IndexError
                | v # _ \<Rightarrow> Inr (save_output self tf_node v)))"
    using assms by (rule process_node_bridge_result)
  have single: "result = PyOp op \<Longrightarrow>
      process_node bridge self tf_node
        = Inr (save_output self tf_node (PyOp (set_safe_name op)))"
    by (simp add: step)
  have many: "result = PyTuple (map PyOp ops) \<Longrightarrow> length ops > 1 \<Longrightarrow>
      process_node bridge self tf_node
        = Inr (save_output self tf_node (PyTuple (map (\<lambda>op. PyOp (set_safe_name op)) ops)))"
    by (simp add: step post_process_ops)
  have one: "result = PyTuple [PyOp op] \<Longrightarrow>
      process_node bridge self tf_node
        = Inr (save_output self tf_node (PyOp (set_safe_name op)))"
    by (simp add: step)
  from single many one show ?thesis by blast
qed


theorem stored_arity_witness:
  "process_node naming_bridge TFImporter \<lparr>node_name = ''a/b'', node_op = ''Relu'', node_input = []\<rparr>
     = Inr (save_output TFImporter \<lparr>node_name = ''a/b'', node_op = ''Relu'', node_input = []\<rparr>
         (PyOp (set_safe_name (Op ''a/b'' 0))))
   \<and> process_node pair_bridge TFImporter \<lparr>node_name = ''a/b'', node_op = ''Relu'', node_input = []\<rparr>
     = Inr (save_output TFImporter \<lparr>node_name = ''a/b'', node_op = ''Relu'', node_input = []\<rparr>
         (PyTuple [PyOp (set_safe_name (Op ''a/b'' 0)), PyOp (set_safe_name (Op ''a/b'' 1))]))
   \<and> process_node one_tuple_bridge TFImporter \<lparr>node_name = ''a/b'', node_op = ''Relu'', node_input = []\<rparr>
     = Inr (save_output TFImporter \<lparr>node_name = ''a/b'', node_op = ''Relu'', node_input = []\<rparr>
         (PyOp (set_safe_name (Op ''a/b'' 0))))"
proof -
  let ?n = "\<lparr>node_name = ''a/b'', node_op = ''Relu'', node_input = []\<rparr>"
  have res: "comprehension (get_op_handle_by_name (name_op_map TFImporter)) (node_input ?n)
      = Inr []"
    by simp
  have b1: "naming_bridge (ops_bridge TFImporter) ?n [] = Inr (PyOp (Op ''a/b'' 0))"
    by (simp add: naming_bridge_def)
  have b2: "pair_bridge (ops_bridge TFImporter) ?n []
      = Inr (PyTuple (map PyOp [Op ''a/b'' 0, Op ''a/b'' 1]))"
    by (simp add: pair_bridge_def)
  have b3: "one_tuple_bridge (ops_bridge TFImporter) ?n [] = Inr (PyTuple [PyOp (Op ''a/b'' 0)])"
    by (simp add: one_tuple_bridge_def)
  have 1: "process_node naming_bridge TFImporter ?n
      = Inr (save_output TFImporter ?n (PyOp (set_safe_name (Op ''a/b'' 0))))"
    using stored_arity [of TFImporter ?n "[]" naming_bridge "PyOp (Op ''a/b'' 0)"
        "Op ''a/b'' 0" "[]"] res b1
    by simp
  have 2: "process_node pair_bridge TFImporter ?n
      = Inr (save_output TFImporter ?n
          (PyTuple [PyOp (set_safe_name (Op ''a/b'' 0)), PyOp (set_safe_name (Op ''a/b'' 1))]))"
    using stored_arity [of TFImporter ?n "[]" pair_bridge
        "PyTuple (map PyOp [Op ''a/b'' 0, Op ''a/b'' 1])" "Op ''a/b'' 0"
        "[Op ''a/b'' 0, Op ''a/b'' 1]"] res b2
    by simp
  have 3: "process_node one_tuple_bridge TFImporter ?n
      = Inr (save_output TFImporter ?n (PyOp (set_safe_name (Op ''a/b'' 0))))"
    using stored_arity [of TFImporter ?n "[]" one_tuple_bridge "PyTuple [PyOp (Op ''a/b'' 0)]"
        "Op ''a/b'' 0" "[]"] res b3
    by simp
  from 1 2 3 show ?thesis by simp
qed

text \<open>
  The claim as the specification states it (a tuple of any length is stored as a tuple)
  fails on a bridge that returns a tuple of one Op: the table holds the Op.
\<close>

theorem one_tuple_stored_as_single:
  "one_tuple_bridge OpsBridge \<lparr>node_name = ''x'', node_op = ''Split'', node_input = []\<rparr> []
     = Inr (PyTuple [PyOp (Op ''x'' 0)])
   \<and> name_op_map (importer_after (parse_graph_def one_tuple_bridge TFImporter
        [\<lparr>node_name = ''x'', node_op = ''Split'', node_input = []\<rparr>])) ''x''
     = Some (PyOp (Op ''x'' 0))
   \<and> \<not> is_tuple (PyOp (Op ''x'' 0))"
  by (simp add: parse_graph_def_def process_node_def one_tuple_bridge_def save_output_def
      importer_after_def set_safe_name_def replace_slash_def is_init_node_def TFImporter_def
      reset_def)

text \<open>A bridge result that is the empty tuple makes \<open>output_op[0]\<close> raise.\<close>

lemma empty_tuple_raises:
  assumes "comprehension (get_op_handle_by_name (name_op_map self)) (node_input tf_node)
             = Inr input_ops"
    and "PyNone \<notin> set input_ops"
    and "bridge (ops_bridge self) tf_node input_ops = Inr (PyTuple [])"
  shows "process_node bridge self tf_node = Inl IndexError"
  using assms by (simp add: process_node_def)

subsection \<open>Names of the stored Ops\<close>








subsection \<open>The keys of the table, and importing again after a reset\<close>

lemma process_node_saves:
  assumes "process_node bridge self tf_node = Inr self'"
  shows "\<exists>v. self' = save_output self tf_node v"
  using assms unfolding process_node_def
  by (auto split: sum.splits if_splits list.splits)

lemma dom_process_node:
  assumes "process_node bridge self tf_node = Inr self'"
  shows "dom (name_op_map self') = insert (node_name tf_node) (dom (name_op_map self))"
proof -
  from assms obtain v where "self' = save_output self tf_node v"
    using process_node_saves by blast
  then show ?thesis by (simp add: save_output_def)
qed

lemma dom_pass2:
  "pass2 bridge self graph = Inr self' \<Longrightarrow>
     dom (name_op_map self') = dom (name_op_map self) \<union> set (map node_name graph)"
proof (induction graph arbitrary: self)
  case Nil
  then show ?case by simp
next
  case (Cons n rest)
  show ?case
  proof (cases "process_node bridge self n")
    case (Inl e)
    with Cons.prems show ?thesis by simp
  next
    case (Inr s1)
    with Cons.prems have "pass2 bridge s1 rest = Inr self'" by simp
    then have "dom (name_op_map self') = dom (name_op_map s1) \<union> set (map node_name rest)"
      by (rule Cons.IH)
    with dom_process_node [OF Inr] show ?thesis by auto
  qed
qed

lemma name_op_map_pass1: "name_op_map (pass1 self graph) = name_op_map self"
  by (induction graph arbitrary: self) simp_all

lemma dom_parse_graph_def:
  assumes "parse_graph_def bridge (reset self) graph = Inr self'"
  shows "dom (name_op_map self') = set (map node_name graph)"
proof -
  from assms have "dom (name_op_map self') =
      dom (name_op_map (pass1 ((reset self)\<lparr>graph_def := Some graph\<rparr>) graph))
        \<union> set (map node_name graph)"
    unfolding parse_graph_def_def by (rule dom_pass2)
  then show ?thesis by (simp add: name_op_map_pass1 reset_def)
qed

text \<open>
  C8. \<open>reset\<close> leaves an empty table, a fresh bridge (whose set of assign names is
  empty), no init ops and no graph, whatever the importer held. So a second
  \<open>reset\<close> and \<open>parse_graph_def\<close> of the same graph, with the same bridge, repeats the
  first run exactly, whether it returned or raised. When both runs return, the keys of the
  table are the names of the graph's nodes (for any two bridges), and with the same
  bridge every key has the same arity, tuple or not, in both tables.
\<close>

theorem reset_then_parse_repeatable:
  "name_op_map (reset self) = Map.empty
   \<and> ops_bridge (reset self) = OpsBridge
   \<and> init_assign_op_names (ops_bridge (reset self)) = {}
   \<and> init_ops (reset self) = []
   \<and> graph_def (reset self) = None
   \<and> parse_graph_def bridge
         (reset (importer_after (parse_graph_def bridge (reset self) graph))) graph
       = parse_graph_def bridge (reset self) graph
   \<and> (parse_graph_def bridge (reset self) graph = Inr first \<longrightarrow>
        parse_graph_def bridge' (reset first) graph = Inr second \<longrightarrow>
          dom (name_op_map first) = set (map node_name graph)
          \<and> dom (name_op_map second) = dom (name_op_map first))
   \<and> (parse_graph_def bridge (reset self) graph = Inr first \<longrightarrow>
        parse_graph_def bridge (reset first) graph = Inr second \<longrightarrow>
          (\<forall>k. map_option is_tuple (name_op_map second k)
                = map_option is_tuple (name_op_map first k)))"
proof -
  have fresh: "reset s = reset s'" for s s' :: importer
    by (simp add: reset_def)
  have again: "parse_graph_def bridge
         (reset (importer_after (parse_graph_def bridge (reset self) graph))) graph
       = parse_graph_def bridge (reset self) graph"
    using fresh [of "importer_after (parse_graph_def bridge (reset self) graph)" self]
    by simp
  have keys: "dom (name_op_map first) = set (map node_name graph)
          \<and> dom (name_op_map second) = dom (name_op_map first)"
    if "parse_graph_def bridge (reset self) graph = Inr first"
      and "parse_graph_def bridge' (reset first) graph = Inr second"
    using that by (simp add: dom_parse_graph_def)
  have same: "\<forall>k. map_option is_tuple (name_op_map second k)
                = map_option is_tuple (name_op_map first k)"
    if "parse_graph_def bridge (reset self) graph = Inr first"
      and "parse_graph_def bridge (reset first) graph = Inr second"
  proof -
    from that fresh [of first self] have "second = first" by simp
    then show ?thesis by simp
  qed
  show ?thesis
    using again keys same by (simp add: reset_def OpsBridge_def)
qed


theorem reset_then_parse_repeatable_witness:
  "parse_graph_def naming_bridge (reset TFImporter)
       [\<lparr>node_name = ''a'', node_op = ''Const'', node_input = []\<rparr>,
        \<lparr>node_name = ''b'', node_op = ''Relu'', node_input = [''a'']\<rparr>]
     = Inr \<lparr>name_op_map = [''a'' \<mapsto> PyOp (Op ''a'' 0), ''b'' \<mapsto> PyOp (Op ''b'' 0)],
            ops_bridge = OpsBridge, init_ops = [],
            graph_def = Some [\<lparr>node_name = ''a'', node_op = ''Const'', node_input = []\<rparr>,
              \<lparr>node_name = ''b'', node_op = ''Relu'', node_input = [''a'']\<rparr>]\<rparr>
   \<and> dom [''a'' \<mapsto> PyOp (Op ''a'' 0), ''b'' \<mapsto> PyOp (Op ''b'' 0)] = {''a'', ''b''}"
proof -
  let ?g = "[\<lparr>node_name = ''a'', node_op = ''Const'', node_input = []\<rparr>,
        \<lparr>node_name = ''b'', node_op = ''Relu'', node_input = [''a'']\<rparr>]"
  let ?first = "\<lparr>name_op_map = [''a'' \<mapsto> PyOp (Op ''a'' 0), ''b'' \<mapsto> PyOp (Op ''b'' 0)],
            ops_bridge = OpsBridge, init_ops = [], graph_def = Some ?g\<rparr>"
  have run: "parse_graph_def naming_bridge (reset s) ?g = Inr ?first" for s
    by (simp add: parse_graph_def_def process_node_def naming_bridge_def save_output_def
        get_op_handle_by_name_def remove_tf_name_prefix_def dict_getitem_def
        set_safe_name_def replace_slash_def is_init_node_def reset_def)
  from reset_then_parse_repeatable [of TFImporter naming_bridge ?g ?first naming_bridge ?first]
    run [of TFImporter] run [of ?first]
  have "dom (name_op_map ?first) = set (map node_name ?g)"
    by simp
  then have "dom [''a'' \<mapsto> PyOp (Op ''a'' 0), ''b'' \<mapsto> PyOp (Op ''b'' 0)] = {''a'', ''b''}"
    by simp
  with run [of TFImporter] show ?thesis by simp
qed

subsection \<open>The node types that the bridge does not support\<close>

lemma op_line_inject: "op_line a = op_line b \<longleftrightarrow> a = b"
  by (simp add: op_line_def)

lemma take_3_op_line: "take 3 (op_line t) = ''op:''"
  by (simp add: op_line_def)

lemma split_op_line:
  assumes "CHR '' '' \<notin> set t"
  shows "split_str CHR '' '' (op_line t) = [''op:'', [CHR 0x22] @ t @ [CHR 0x22]]"
proof -
  let ?w = "[CHR 0x22] @ t @ [CHR 0x22]"
  have "op_line t = ''op:'' @ CHR '' '' # ?w"
    by (simp add: op_line_def)
  moreover have "split_str CHR '' '' (''op:'' @ CHR '' '' # ?w) = ''op:'' # split_str CHR '' '' ?w"
    by (rule split_str_append) simp
  moreover have "split_str CHR '' '' ?w = [?w]"
    by (rule split_str_no_sep) (use assms in simp)
  ultimately show ?thesis by simp
qed

lemma required_ops_loop_op_line:
  assumes "CHR '' '' \<notin> set t"
  shows "required_ops_loop acc (op_line t # rest) = required_ops_loop (insert t acc) rest"
  using assms by (simp add: take_3_op_line split_op_line butlast_append)

lemma required_ops_loop_other:
  assumes "take 3 line \<noteq> ''op:''"
  shows "required_ops_loop acc (line # rest) = required_ops_loop acc rest"
  using assms by simp

lemma required_ops_loop_well_formed:
  assumes "\<forall>l\<in>set ls. take 3 l = ''op:'' \<longrightarrow> (\<exists>t. l = op_line t \<and> CHR '' '' \<notin> set t)"
  shows "required_ops_loop acc ls = Inr (acc \<union> {t. op_line t \<in> set ls})"
  using assms
proof (induction ls arbitrary: acc)
  case Nil
  then show ?case by simp
next
  case (Cons l ls)
  then have IH: "required_ops_loop acc' ls = Inr (acc' \<union> {t. op_line t \<in> set ls})" for acc'
    by simp
  show ?case
  proof (cases "take 3 l = ''op:''")
    case True
    with Cons.prems obtain t where l: "l = op_line t" and t: "CHR '' '' \<notin> set t"
      by auto
    have "{u. op_line u \<in> set (l # ls)} = insert t {u. op_line u \<in> set ls}"
      using l by (auto simp: op_line_inject)
    moreover have "required_ops_loop acc (l # ls) = required_ops_loop (insert t acc) ls"
      unfolding l using t by (rule required_ops_loop_op_line)
    ultimately show ?thesis
      using IH [of "insert t acc"] by simp
  next
    case False
    then have "\<And>u. op_line u \<noteq> l"
      using take_3_op_line by auto
    then have "{u. op_line u \<in> set (l # ls)} = {u. op_line u \<in> set ls}"
      by auto
    moreover have "required_ops_loop acc (l # ls) = required_ops_loop acc ls"
      using False by (rule required_ops_loop_other)
    ultimately show ?thesis
      using IH [of acc] by simp
  qed
qed

lemma finite_op_types: "finite {t. op_line t \<in> set ls}"
proof -
  have "inj op_line" by (simp add: inj_def op_line_inject)
  then have "finite (op_line -` set ls)" by (simp add: finite_vimageI)
  then show ?thesis by (simp add: vimage_def)
qed

text \<open>
  C7, as the code has it. \<open>_get_unimplemented_ops\<close> does not decode the node list: it
  reads the file line by line and takes a node type from every line that starts, once
  stripped, with \<open>op:\<close>. Take a file in which every such line is the line
  \<open>op: "T"\<close> for some node type \<open>T\<close> without a space in it. Then the function returns a
  list that is sorted, has no element twice, and holds exactly the types \<open>T\<close> of these
  lines that are not in \<open>supported_ops\<close>. The function reads the lines only: it neither
  takes nor changes an importer.
\<close>

theorem unimplemented_ops_sorted_difference:
  assumes "\<forall>l\<in>set lines. take 3 (strip l) = ''op:'' \<longrightarrow>
             (\<exists>t. strip l = op_line t \<and> CHR '' '' \<notin> set t)"
  shows "\<exists>r. get_unimplemented_ops supported_ops lines = Inr r
           \<and> sorted r \<and> distinct r
           \<and> set r = {t. op_line t \<in> strip ` set lines} - supported_ops"
proof -
  let ?required = "{t. op_line t \<in> set (map strip lines)}"
  have "\<forall>l\<in>set (map strip lines). take 3 l = ''op:'' \<longrightarrow>
      (\<exists>t. l = op_line t \<and> CHR '' '' \<notin> set t)"
    using assms by auto
  then have "required_ops_loop {} (map strip lines) = Inr ({} \<union> ?required)"
    by (rule required_ops_loop_well_formed)
  then have run: "get_unimplemented_ops supported_ops lines
      = Inr (sorted_list_of_set (?required - supported_ops))"
    by (simp add: get_unimplemented_ops_def)
  have "finite (?required - supported_ops)"
    using finite_op_types [of "map strip lines"] by simp
  then have "set (sorted_list_of_set (?required - supported_ops))
      = {t. op_line t \<in> strip ` set lines} - supported_ops"
    by simp
  with run show ?thesis
    by simp
qed

lemma fancy_example:
  "get_unimplemented_ops {''Add''}
     [''  op: \"Add\"'', ''name: \"x\"'', ''op: \"FancyNewOp\"''] = Inr [''FancyNewOp'']"
  by code_simp

theorem unimplemented_ops_sorted_difference_witness:
  "get_unimplemented_ops {''Add''}
     [''  op: \"Add\"'', ''name: \"x\"'', ''op: \"FancyNewOp\"''] = Inr [''FancyNewOp'']
   \<and> set [''FancyNewOp'']
     = {t. op_line t \<in> strip ` set [''  op: \"Add\"'', ''name: \"x\"'', ''op: \"FancyNewOp\"'']}
       - {''Add''}"
proof -
  let ?lines = "[''  op: \"Add\"'', ''name: \"x\"'', ''op: \"FancyNewOp\"'']"
  have s1: "strip ''  op: \"Add\"'' = op_line ''Add''"
    by (simp add: strip_def is_space_def op_line_def)
  have s2: "strip ''name: \"x\"'' = ''name: \"x\"''"
    by (simp add: strip_def is_space_def)
  have s3: "strip ''op: \"FancyNewOp\"'' = op_line ''FancyNewOp''"
    by (simp add: strip_def is_space_def op_line_def)
  have t1: "\<exists>t. strip ''  op: \"Add\"'' = op_line t \<and> CHR '' '' \<notin> set t"
    using s1 by (intro exI [of _ "''Add''"]) simp
  have t3: "\<exists>t. strip ''op: \"FancyNewOp\"'' = op_line t \<and> CHR '' '' \<notin> set t"
    using s3 by (intro exI [of _ "''FancyNewOp''"]) simp
  have t2: "take 3 (strip ''name: \"x\"'') \<noteq> ''op:''"
    by (simp add: s2)
  have wf: "\<forall>l\<in>set ?lines. take 3 (strip l) = ''op:'' \<longrightarrow>
             (\<exists>t. strip l = op_line t \<and> CHR '' '' \<notin> set t)"
    using t1 t2 t3 by simp
  from unimplemented_ops_sorted_difference [OF wf, of "{''Add''}"] fancy_example
  show ?thesis by simp
qed

text \<open>
  The claim as the specification states it, for every node list, fails on a file that
  writes a node of type \<open>Sub\<close> on one line: no line starts with \<open>op:\<close>, and the function
  returns the empty list although no type is supported. On a file that writes the field
  without a space after the colon, the function raises.
\<close>

theorem op_field_not_on_its_own_line:
  "get_unimplemented_ops {} [''node { name: \"x\" op: \"Sub\" }''] = Inr []
   \<and> get_unimplemented_ops {} [''op:\"Sub\"''] = Inl IndexError"
  by code_simp

subsection \<open>A node with a missing input\<close>

lemma process_node_keeps_entry:
  assumes "process_node bridge self tf_node = Inr self'" and "k \<noteq> node_name tf_node"
  shows "name_op_map self' k = name_op_map self k"
proof -
  from assms(1) obtain v where "self' = save_output self tf_node v"
    using process_node_saves by blast
  with assms(2) show ?thesis by (simp add: save_output_def)
qed

lemma pass2_keeps_entry:
  "pass2 bridge self graph = Inr final \<Longrightarrow> k \<notin> node_name ` set graph \<Longrightarrow>
     name_op_map final k = name_op_map self k"
proof (induction graph arbitrary: self)
  case Nil
  then show ?case by simp
next
  case (Cons n rest)
  show ?case
  proof (cases "process_node bridge self n")
    case (Inl e)
    with Cons.prems show ?thesis by simp
  next
    case (Inr s1)
    with Cons.prems have run: "pass2 bridge s1 rest = Inr final" by simp
    from Cons.prems have k: "k \<noteq> node_name n" and rest: "k \<notin> node_name ` set rest"
      by auto
    from run rest have "name_op_map final k = name_op_map s1 k"
      by (rule Cons.IH)
    also from Inr k have "\<dots> = name_op_map self k"
      by (rule process_node_keeps_entry)
    finally show ?thesis .
  qed
qed

text \<open>
  C2. When the inputs of a node all resolve and one of them is the missing marker
  \<open>None\<close>, the node is processed without the bridge: the result is the same for every
  bridge, also for one that raises whenever it is called. The table records \<open>None\<close> under
  the node's name. The pass then goes on: when the node is the last one the pass returns
  the importer with that entry; otherwise the next node is processed on the importer with
  that entry, and its outcome decides how the pass goes on; and when the pass returns,
  the entry is still \<open>None\<close> unless a later node has the same name.
\<close>

theorem missing_input_skips_bridge:
  assumes "comprehension (get_op_handle_by_name (name_op_map self)) (node_input tf_node)
             = Inr input_ops"
    and "PyNone \<in> set input_ops"
  shows "process_node bridge self tf_node = Inr (save_output self tf_node PyNone)
         \<and> process_node raising_bridge self tf_node = Inr (save_output self tf_node PyNone)
         \<and> name_op_map (save_output self tf_node PyNone) (node_name tf_node) = Some PyNone
         \<and> pass2 bridge self [tf_node] = Inr (save_output self tf_node PyNone)
         \<and> pass2 bridge self (tf_node # next_node # rest) =
             (case process_node bridge (save_output self tf_node PyNone) next_node of
                Inl e \<Rightarrow> Inl (e, save_output self tf_node PyNone)
              | Inr self' \<Rightarrow> pass2 bridge self' rest)
         \<and> (pass2 bridge self (tf_node # later) = Inr final
              \<and> node_name tf_node \<notin> node_name ` set later
            \<longrightarrow> name_op_map final (node_name tf_node) = Some PyNone)"
proof -
  have step: "process_node b self tf_node = Inr (save_output self tf_node PyNone)" for b
    using assms by (simp add: process_node_def)
  have entry: "name_op_map (save_output self tf_node PyNone) (node_name tf_node) = Some PyNone"
    by (rule name_op_map_save_output)
  have one: "pass2 bridge self [tf_node] = Inr (save_output self tf_node PyNone)"
    by (simp add: step)
  have two: "pass2 bridge self (tf_node # next_node # rest) =
             (case process_node bridge (save_output self tf_node PyNone) next_node of
                Inl e \<Rightarrow> Inl (e, save_output self tf_node PyNone)
              | Inr self' \<Rightarrow> pass2 bridge self' rest)"
    by (simp add: step)
  have kept: "name_op_map final (node_name tf_node) = Some PyNone"
    if run: "pass2 bridge self (tf_node # later) = Inr final"
      and fresh: "node_name tf_node \<notin> node_name ` set later"
  proof -
    from run have "pass2 bridge (save_output self tf_node PyNone) later = Inr final"
      by (simp add: step)
    then have "name_op_map final (node_name tf_node)
        = name_op_map (save_output self tf_node PyNone) (node_name tf_node)"
      using fresh by (rule pass2_keeps_entry)
    with entry show ?thesis by simp
  qed
  from step [of bridge] step [of raising_bridge] entry one two kept show ?thesis
    by blast
qed


theorem missing_input_skips_bridge_witness:
  "parse_graph_def partial_bridge TFImporter
       [\<lparr>node_name = ''a'', node_op = ''FancyNewOp'', node_input = []\<rparr>,
        \<lparr>node_name = ''b'', node_op = ''Relu'', node_input = [''a'']\<rparr>,
        \<lparr>node_name = ''c'', node_op = ''Const'', node_input = []\<rparr>]
     = Inr \<lparr>name_op_map = [''a'' \<mapsto> PyNone, ''b'' \<mapsto> PyNone, ''c'' \<mapsto> PyOp (Op ''c'' 0)],
            ops_bridge = OpsBridge, init_ops = [],
            graph_def = Some
              [\<lparr>node_name = ''a'', node_op = ''FancyNewOp'', node_input = []\<rparr>,
               \<lparr>node_name = ''b'', node_op = ''Relu'', node_input = [''a'']\<rparr>,
               \<lparr>node_name = ''c'', node_op = ''Const'', node_input = []\<rparr>]\<rparr>
   \<and> process_node raising_bridge (TFImporter\<lparr>name_op_map := [''a'' \<mapsto> PyNone]\<rparr>)
         \<lparr>node_name = ''b'', node_op = ''Relu'', node_input = [''a'']\<rparr>
       = Inr (TFImporter\<lparr>name_op_map := [''a'' \<mapsto> PyNone, ''b'' \<mapsto> PyNone]\<rparr>)
   \<and> pass2 partial_bridge (TFImporter\<lparr>name_op_map := [''a'' \<mapsto> PyNone]\<rparr>)
         [\<lparr>node_name = ''b'', node_op = ''Relu'', node_input = [''a'']\<rparr>,
          \<lparr>node_name = ''c'', node_op = ''Const'', node_input = []\<rparr>]
       = Inr (TFImporter\<lparr>name_op_map :=
           [''a'' \<mapsto> PyNone, ''b'' \<mapsto> PyNone, ''c'' \<mapsto> PyOp (Op ''c'' 0)]\<rparr>)"
proof -
  let ?a = "\<lparr>node_name = ''a'', node_op = ''FancyNewOp'', node_input = []\<rparr>"
  let ?b = "\<lparr>node_name = ''b'', node_op = ''Relu'', node_input = [''a'']\<rparr>"
  let ?c = "\<lparr>node_name = ''c'', node_op = ''Const'', node_input = []\<rparr>"
  let ?s1 = "TFImporter\<lparr>name_op_map := [''a'' \<mapsto> PyNone]\<rparr>"
  let ?s3 = "TFImporter\<lparr>name_op_map :=
           [''a'' \<mapsto> PyNone, ''b'' \<mapsto> PyNone, ''c'' \<mapsto> PyOp (Op ''c'' 0)]\<rparr>"
  have res: "comprehension (get_op_handle_by_name (name_op_map ?s1)) (node_input ?b)
      = Inr [PyNone]"
    by (simp add: get_op_handle_by_name_def remove_tf_name_prefix_def dict_getitem_def)
  have mem: "PyNone \<in> set [PyNone]" by simp
  note inst = missing_input_skips_bridge [OF res mem, of partial_bridge ?c "[]" "[?c]" ?s3]
  have saved: "save_output ?s1 ?b PyNone
      = TFImporter\<lparr>name_op_map := [''a'' \<mapsto> PyNone, ''b'' \<mapsto> PyNone]\<rparr>"
    by (simp add: save_output_def is_init_node_def TFImporter_def reset_def)
  have next_node: "process_node partial_bridge (save_output ?s1 ?b PyNone) ?c = Inr ?s3"
    by (simp add: saved process_node_def partial_bridge_def save_output_def
        set_safe_name_def replace_slash_def is_init_node_def TFImporter_def reset_def)
  from inst have "process_node raising_bridge ?s1 ?b = Inr (save_output ?s1 ?b PyNone)"
    by simp
  then have skip: "process_node raising_bridge ?s1 ?b
      = Inr (TFImporter\<lparr>name_op_map := [''a'' \<mapsto> PyNone, ''b'' \<mapsto> PyNone]\<rparr>)"
    by (simp only: saved)
  from inst have "pass2 partial_bridge ?s1 (?b # ?c # []) =
      (case process_node partial_bridge (save_output ?s1 ?b PyNone) ?c of
         Inl e \<Rightarrow> Inl (e, save_output ?s1 ?b PyNone)
       | Inr self' \<Rightarrow> pass2 partial_bridge self' [])"
    by simp
  then have continues: "pass2 partial_bridge ?s1 [?b, ?c] = Inr ?s3"
    by (simp only: next_node sum.case pass2.simps)
  have whole: "parse_graph_def partial_bridge TFImporter [?a, ?b, ?c]
      = Inr \<lparr>name_op_map = [''a'' \<mapsto> PyNone, ''b'' \<mapsto> PyNone, ''c'' \<mapsto> PyOp (Op ''c'' 0)],
            ops_bridge = OpsBridge, init_ops = [], graph_def = Some [?a, ?b, ?c]\<rparr>"
    by (simp add: parse_graph_def_def process_node_def partial_bridge_def save_output_def
        get_op_handle_by_name_def remove_tf_name_prefix_def dict_getitem_def
        set_safe_name_def replace_slash_def is_init_node_def TFImporter_def reset_def)
  from whole skip continues show ?thesis by simp
qed

end
